theory Spec2Isabelle
  imports Main
begin

section \<open>Python values used by \<open>process_step_run.py\<close>\<close>

text \<open>
  The module exchanges parsed JSON with the dashboard API. A parsed JSON document is a
  Python object: \<open>None\<close>, a bool, a number, a string, a list or a dict. A dict is kept as
  an association list in insertion order and read with \<open>map_of\<close>. Strings are lists of
  characters with code points below 256, which covers the two Danish texts of the module
  (the letter o-slash is code point 248). Identifiers are integers, so numbers are
  integers here.
\<close>

datatype json =
    JNull
  | JBool bool
  | JInt int
  | JString string
  | JArray "json list"
  | JObject "(string \<times> json) list"

type_synonym dict = "(string \<times> json) list"

text \<open>
  Exceptions are values. \<open>RuntimeError\<close> is the one the module raises itself,
  \<open>AttributeError\<close> is what Python raises for \<open>.get\<close> on an object that has no such
  method, and \<open>Raised\<close> stands for whatever a collaborator raises.
\<close>

datatype error =
    RuntimeError string
  | AttributeError string
  | Raised string

text \<open>
  A traceback object: where the interpreter keeps it, and the call stack it records, one
  entry (file, line, function) per frame. Traceback objects are always true.
\<close>

record traceback_object =
  tb_address :: nat
  tb_frames :: "(string \<times> nat \<times> string) list"

text \<open>
  What \<open>build_step_run_update\<close> reads of its \<open>failure\<close> argument:
  \<open>type(failure).__name__\<close>, \<open>isinstance(failure, BusinessError)\<close>, \<open>str(failure)\<close>,
  \<open>failure.__traceback__\<close> (\<open>None\<close> or a traceback object) and \<open>bool(failure)\<close>, which
  is \<open>True\<close> unless the exception class defines \<open>__bool__\<close> or \<open>__len__\<close>.
\<close>

record py_exception =
  class_name :: string
  is_business_error :: bool
  str_of :: string
  traceback :: "traceback_object option"
  truthy :: bool

section \<open>The timestamp\<close>

text \<open>
  \<open>datetime.now(timezone.utc)\<close> is an input of the model: an aware datetime with a zero
  UTC offset. \<open>valid_datetime\<close> gives the field ranges of Python's \<open>datetime\<close> class.
\<close>

record datetime =
  year :: nat
  month :: nat
  day :: nat
  hour :: nat
  minute :: nat
  second :: nat
  microsecond :: nat

definition valid_datetime :: "datetime \<Rightarrow> bool" where
  "valid_datetime t \<longleftrightarrow>
     1 \<le> year t \<and> year t \<le> 9999 \<and> 1 \<le> month t \<and> month t \<le> 12 \<and>
     1 \<le> day t \<and> day t \<le> 31 \<and> hour t < 24 \<and> minute t < 60 \<and> second t < 60 \<and>
     microsecond t < 1000000"

definition digit_char :: "nat \<Rightarrow> char" where
  "digit_char d = ''0123456789'' ! (d mod 10)"

fun dec :: "nat \<Rightarrow> string" where
  "dec n = (if n < 10 then [digit_char n] else dec (n div 10) @ [digit_char (n mod 10)])"

declare dec.simps [simp del]

text \<open>\<open>str(i)\<close> of a Python int, as an f-string or \<open>%s\<close> renders it.\<close>

definition str_int :: "int \<Rightarrow> string" where
  "str_int i = (if i < 0 then CHR ''-'' # dec (nat (- i)) else dec (nat i))"

text \<open>
  \<open>str(tb)\<close> of a traceback object. The class defines neither \<open>__str__\<close> nor
  \<open>__repr__\<close>, so the text is the one of \<open>object\<close>: the type name and the address in
  hexadecimal, as CPython prints a pointer on Linux. The frames do not enter it.
\<close>

definition hex_char :: "nat \<Rightarrow> char" where
  "hex_char d = ''0123456789abcdef'' ! (d mod 16)"

fun hex :: "nat \<Rightarrow> string" where
  "hex n = (if n < 16 then [hex_char n] else hex (n div 16) @ [hex_char (n mod 16)])"

declare hex.simps [simp del]

definition str_traceback :: "traceback_object \<Rightarrow> string" where
  "str_traceback tb = ''<traceback object at 0x'' @ hex (tb_address tb) @ ''>''"

text \<open>The format \<open>%0wd\<close> of a non-negative number: zeros on the left up to width \<open>w\<close>.\<close>

definition zero_pad :: "nat \<Rightarrow> nat \<Rightarrow> string" where
  "zero_pad w n = replicate (w - length (dec n)) CHR ''0'' @ dec n"

text \<open>
  \<open>isoformat(timespec="milliseconds")\<close> of an aware UTC datetime: date, \<open>T\<close>, time, the
  microseconds cut down to milliseconds, and the offset \<open>+00:00\<close>.
\<close>

definition isoformat_milliseconds :: "datetime \<Rightarrow> string" where
  "isoformat_milliseconds t =
     zero_pad 4 (year t) @ ''-'' @ zero_pad 2 (month t) @ ''-'' @ zero_pad 2 (day t) @ ''T'' @
     zero_pad 2 (hour t) @ '':'' @ zero_pad 2 (minute t) @ '':'' @ zero_pad 2 (second t) @ ''.'' @
     zero_pad 3 (microsecond t div 1000) @ ''+00:00''"

text \<open>
  \<open>s.replace(old, new)\<close>: every occurrence of \<open>old\<close>, found from the left and not
  overlapping, becomes \<open>new\<close>. With an empty \<open>old\<close> Python puts \<open>new\<close> before every
  character and at the end.
\<close>

function replace :: "string \<Rightarrow> string \<Rightarrow> string \<Rightarrow> string" where
  "replace old new s =
     (if old = [] then concat (map (\<lambda>c. new @ [c]) s) @ new
      else if s = [] then []
      else if take (length old) s = old then new @ replace old new (drop (length old) s)
      else hd s # replace old new (tl s))"
  by pat_completeness auto
termination
  by (relation "measure (\<lambda>(old, new, s). length s)") auto

declare replace.simps [simp del]

section \<open>The update payload\<close>

definition build_step_run_update :: "string \<Rightarrow> py_exception option \<Rightarrow> datetime \<Rightarrow> dict" where
  "build_step_run_update status failure utc_now =
     (let now = replace ''+00:00'' ''Z'' (isoformat_milliseconds utc_now);
          failure_data =
            (case failure of
               None \<Rightarrow> JNull
             | Some e \<Rightarrow>
                 if truthy e then
                   if is_business_error e then
                     JObject
                       [(''error_code'', JString (class_name e)),
                        (''message'', JString (str_of e)),
                        (''details'',
                           case traceback e of
                             None \<Rightarrow> JNull
                           | Some tb \<Rightarrow> JString (str_traceback tb))]
                   else
                     JObject
                       [(''error_code'', JString ''ApplicationException''),
                        (''message'', JString ''Processen er fejlet''),
                        (''details'',
                           JString
                             (''Digitalisering unders'' @ [CHR 0xF8] @
                              ''ger fejlen og genstarter processen.'' @ [CHR 0x0A, CHR 0x0A] @
                              ''Kontakt Digitalisering hvis det ikke er l'' @ [CHR 0xF8] @
                              ''st efter 2 arbejdsdage.''))]
                 else JNull)
      in [(''status'', JString status),
          (''started_at'', JString now),
          (''finished_at'', JString now),
          (''failure'', failure_data)])"

section \<open>Collaborators and effects\<close>

text \<open>
  The HTTP client and the three identity look-ups of the sibling modules are parameters.
  Each one reads and changes the outside world (a state of any type \<open>'w\<close>) and either
  returns a value or raises. A response offers \<open>.json()\<close>, which may raise, and
  \<open>.status_code\<close>.
\<close>

record response =
  json_body :: "error + json"
  status_code :: int

record 'w collaborators =
  get_dashboard_process_id :: "string \<Rightarrow> 'w \<Rightarrow> (error + int) \<times> 'w"
  get_dashboard_step_id :: "int \<Rightarrow> string \<Rightarrow> 'w \<Rightarrow> (error + int) \<times> 'w"
  get_dashboard_run_id :: "int \<Rightarrow> string \<Rightarrow> 'w \<Rightarrow> (error + int) \<times> 'w"
  client_get :: "string \<Rightarrow> 'w \<Rightarrow> (error + response) \<times> 'w"
  client_patch :: "string \<Rightarrow> json \<Rightarrow> 'w \<Rightarrow> (error + response) \<times> 'w"

text \<open>
  A run of the module's code threads the world and a journal of the calls it makes, in
  the order it makes them. A raised exception ends the run: \<open>bind_io\<close> does not start
  the continuation after an \<open>Inl\<close>.
\<close>

datatype event =
    LoggerInfo string
  | GetDashboardProcessId string
  | GetDashboardStepId int string
  | GetDashboardRunId int string
  | ClientGet string
  | ClientPatch string json

type_synonym ('w, 'a) io = "'w \<times> event list \<Rightarrow> (error + 'a) \<times> ('w \<times> event list)"

definition return_io :: "'a \<Rightarrow> ('w, 'a) io" where
  "return_io a s = (Inr a, s)"

definition raise_io :: "error \<Rightarrow> ('w, 'a) io" where
  "raise_io e s = (Inl e, s)"

definition result_io :: "error + 'a \<Rightarrow> ('w, 'a) io" where
  "result_io r s = (r, s)"

definition bind_io :: "('w, 'a) io \<Rightarrow> ('a \<Rightarrow> ('w, 'b) io) \<Rightarrow> ('w, 'b) io" where
  "bind_io m k s = (case m s of (Inl e, s') \<Rightarrow> (Inl e, s') | (Inr a, s') \<Rightarrow> k a s')"

definition call_io :: "event \<Rightarrow> ('w \<Rightarrow> (error + 'a) \<times> 'w) \<Rightarrow> ('w, 'a) io" where
  "call_io ev f s = (case f (fst s) of (r, w') \<Rightarrow> (r, (w', snd s @ [ev])))"

definition logger_info :: "string \<Rightarrow> ('w, unit) io" where
  "logger_info msg s = (Inr (), (fst s, snd s @ [LoggerInfo msg]))"

text \<open>
  \<open>obj.get(key)\<close>: a dict answers with the value or \<open>None\<close>; the other JSON objects have
  no \<open>get\<close> and Python raises \<open>AttributeError\<close>.
\<close>

fun type_name :: "json \<Rightarrow> string" where
  "type_name JNull = ''NoneType''"
| "type_name (JBool _) = ''bool''"
| "type_name (JInt _) = ''int''"
| "type_name (JString _) = ''str''"
| "type_name (JArray _) = ''list''"
| "type_name (JObject _) = ''dict''"

fun py_get :: "json \<Rightarrow> string \<Rightarrow> error + json" where
  "py_get (JObject d) key = Inr (case map_of d key of None \<Rightarrow> JNull | Some v \<Rightarrow> v)"
| "py_get obj key =
     Inl (AttributeError ([CHR 0x27] @ type_name obj @ [CHR 0x27] @ '' object has no attribute '' @
                          [CHR 0x27] @ ''get'' @ [CHR 0x27]))"

section \<open>Resolving the step run\<close>

definition step_run_path :: "int \<Rightarrow> int \<Rightarrow> string" where
  "step_run_path run_id step_id =
     ''step-runs/run/'' @ str_int run_id @ ''/step/'' @ str_int step_id @ ''?include_deleted=false''"

definition get_step_run_id_for_process_step_cpr ::
  "'w collaborators \<Rightarrow> string \<Rightarrow> string \<Rightarrow> string \<Rightarrow> ('w, json) io" where
  "get_step_run_id_for_process_step_cpr client process_name step_name cpr =
     bind_io (logger_info (''Finding step-run ID for '' @ process_name @ '' / '' @ step_name @
                           '' / '' @ cpr)) (\<lambda>_.
     bind_io (call_io (GetDashboardProcessId process_name)
                (get_dashboard_process_id client process_name)) (\<lambda>process_id.
     bind_io (call_io (GetDashboardStepId process_id step_name)
                (get_dashboard_step_id client process_id step_name)) (\<lambda>step_id.
     bind_io (call_io (GetDashboardRunId process_id cpr)
                (get_dashboard_run_id client process_id cpr)) (\<lambda>run_id.
     bind_io (call_io (ClientGet (step_run_path run_id step_id))
                (client_get client (step_run_path run_id step_id))) (\<lambda>res.
     bind_io (result_io (json_body res)) (\<lambda>step_run.
     bind_io (result_io (py_get step_run ''id'')) (\<lambda>step_run_id.
     if step_run_id = JNull
     then raise_io (RuntimeError ''Step run ID not found for process/step/CPR combination.'')
     else return_io step_run_id)))))))"

section \<open>Sending the update\<close>

definition update_dashboard_step_run_by_id ::
  "'w collaborators \<Rightarrow> int \<Rightarrow> json \<Rightarrow> ('w, json \<times> int) io" where
  "update_dashboard_step_run_by_id client step_run_id update_data =
     bind_io (logger_info (''Updating step run ID '' @ str_int step_run_id)) (\<lambda>_.
     bind_io (call_io (ClientPatch (''step-runs/'' @ str_int step_run_id) update_data)
                (client_patch client (''step-runs/'' @ str_int step_run_id) update_data)) (\<lambda>res.
     bind_io (result_io (json_body res)) (\<lambda>body.
     return_io (body, status_code res))))"

section \<open>Vocabulary of the properties\<close>

text \<open>
  The shape the specification asks of a timestamp: \<open>YYYY-MM-DDTHH:MM:SS.fffZ\<close>. In a
  pattern the letter \<open>d\<close> stands for one decimal digit and every other character for
  itself.
\<close>

definition is_digit :: "char \<Rightarrow> bool" where
  "is_digit c \<longleftrightarrow> c \<in> set ''0123456789''"

fun matches_pattern :: "string \<Rightarrow> string \<Rightarrow> bool" where
  "matches_pattern [] [] = True"
| "matches_pattern (p # ps) (c # cs) =
     ((if p = CHR ''d'' then is_digit c else c = p) \<and> matches_pattern ps cs)"
| "matches_pattern _ _ = False"

definition utc_millis_timestamp :: "string \<Rightarrow> bool" where
  "utc_millis_timestamp s = matches_pattern ''dddd-dd-ddTdd:dd:dd.dddZ'' s"

fun has_substring :: "string \<Rightarrow> string \<Rightarrow> bool" where
  "has_substring sub [] = (sub = [])"
| "has_substring sub (c # cs) = (take (length sub) (c # cs) = sub \<or> has_substring sub cs)"

text \<open>The timestamp the specification describes, written out field by field.\<close>

definition utc_timestamp_text :: "datetime \<Rightarrow> string" where
  "utc_timestamp_text t =
     zero_pad 4 (year t) @ ''-'' @ zero_pad 2 (month t) @ ''-'' @ zero_pad 2 (day t) @ ''T'' @
     zero_pad 2 (hour t) @ '':'' @ zero_pad 2 (minute t) @ '':'' @ zero_pad 2 (second t) @ ''.'' @
     zero_pad 3 (microsecond t div 1000) @ ''Z''"

text \<open>\<open>d[k] = v\<close> on a dict: the entry is overwritten in place, or added at the end.\<close>

fun dict_set :: "string \<Rightarrow> json \<Rightarrow> dict \<Rightarrow> dict" where
  "dict_set k v [] = [(k, v)]"
| "dict_set k v ((k', v') # d) = (if k' = k then (k, v) # d else (k', v') # dict_set k v d)"

section \<open>Sample inputs\<close>

definition sample_time :: datetime where
  "sample_time =
     \<lparr>year = 2026, month = 3, day = 7, hour = 9, minute = 5, second = 0, microsecond = 42999\<rparr>"

definition same_millisecond :: datetime where
  "same_millisecond =
     \<lparr>year = 2026, month = 3, day = 7, hour = 9, minute = 5, second = 0, microsecond = 42000\<rparr>"

definition next_day :: datetime where
  "next_day =
     \<lparr>year = 2026, month = 3, day = 8, hour = 0, minute = 0, second = 1, microsecond = 0\<rparr>"

text \<open>Two traceback objects at the same address that record different call stacks.\<close>

definition traceback_of_run :: traceback_object where
  "traceback_of_run =
     \<lparr>tb_address = 0x7f3a5c0b2d40,
      tb_frames = [(''main.py'', 12, ''run''), (''steps.py'', 40, ''check_case'')]\<rparr>"

definition traceback_of_import :: traceback_object where
  "traceback_of_import =
     \<lparr>tb_address = 0x7f3a5c0b2d40, tb_frames = [(''loader.py'', 7, ''read_rows'')]\<rparr>"

definition business_error_X :: py_exception where
  "business_error_X =
     \<lparr>class_name = ''X'', is_business_error = True, str_of = ''boom'',
      traceback = Some traceback_of_run, truthy = True\<rparr>"

definition business_error_X_import :: py_exception where
  "business_error_X_import =
     \<lparr>class_name = ''X'', is_business_error = True, str_of = ''boom'',
      traceback = Some traceback_of_import, truthy = True\<rparr>"

definition business_error_X_fresh :: py_exception where
  "business_error_X_fresh =
     \<lparr>class_name = ''X'', is_business_error = True, str_of = ''boom'',
      traceback = None, truthy = True\<rparr>"

text \<open>
  A subclass of \<open>BusinessError\<close> named \<open>X\<close> whose \<open>__bool__\<close> returns \<open>False\<close>, raised
  nowhere yet (no traceback), with message \<open>boom\<close>.
\<close>

definition falsy_business_error_X :: py_exception where
  "falsy_business_error_X =
     \<lparr>class_name = ''X'', is_business_error = True, str_of = ''boom'',
      traceback = None, truthy = False\<rparr>"

definition value_error :: py_exception where
  "value_error =
     \<lparr>class_name = ''ValueError'', is_business_error = False, str_of = ''secret 42'',
      traceback = None, truthy = True\<rparr>"

definition key_error :: py_exception where
  "key_error =
     \<lparr>class_name = ''KeyError'', is_business_error = False, str_of = ''password'',
      traceback = Some traceback_of_run, truthy = True\<rparr>"

text \<open>An exception class outside \<open>BusinessError\<close> whose \<open>__len__\<close> returns 0.\<close>

definition falsy_application_error :: py_exception where
  "falsy_application_error =
     \<lparr>class_name = ''EmptyBatch'', is_business_error = False, str_of = ''nothing to do'',
      traceback = None, truthy = False\<rparr>"

text \<open>
  A client whose world is the number of calls served so far. \<open>fails_at\<close> picks the
  call that raises (1 process, 2 step, 3 run, 4 the GET, 5 the PATCH; any other number:
  none), and \<open>res\<close> is the response of the GET and of the PATCH.
\<close>

definition stub_client :: "nat \<Rightarrow> response \<Rightarrow> nat collaborators" where
  "stub_client fails_at res =
     \<lparr>get_dashboard_process_id =
        (\<lambda>name w. (if fails_at = 1 then Inl (Raised ''process not found'') else Inr 7, Suc w)),
      get_dashboard_step_id =
        (\<lambda>process_id name w.
           (if fails_at = 2 then Inl (Raised ''step not found'') else Inr (process_id + 4), Suc w)),
      get_dashboard_run_id =
        (\<lambda>process_id cpr w.
           (if fails_at = 3 then Inl (Raised ''run not found'') else Inr (process_id * 6), Suc w)),
      client_get =
        (\<lambda>path w. (if fails_at = 4 then Inl (Raised ''ConnectionError'') else Inr res, Suc w)),
      client_patch =
        (\<lambda>path body w. (if fails_at = 5 then Inl (Raised ''ConnectionError'') else Inr res, Suc w))\<rparr>"

definition found_response :: response where
  "found_response =
     \<lparr>json_body = Inr (JObject [(''id'', JInt 31), (''status'', JString ''pending'')]),
      status_code = 200\<rparr>"

definition missing_response :: response where
  "missing_response =
     \<lparr>json_body = Inr (JObject [(''detail'', JString ''Not found'')]), status_code = 404\<rparr>"

definition null_id_response :: response where
  "null_id_response = \<lparr>json_body = Inr (JObject [(''id'', JNull)]), status_code = 200\<rparr>"

text \<open>A response whose body is the JSON text \<open>null\<close>, and one whose body is not JSON.\<close>

definition null_body_response :: response where
  "null_body_response = \<lparr>json_body = Inr JNull, status_code = 200\<rparr>"

definition unparsable_response :: response where
  "unparsable_response = \<lparr>json_body = Inl (Raised ''JSONDecodeError''), status_code = 502\<rparr>"

definition server_error_response :: response where
  "server_error_response =
     \<lparr>json_body = Inr (JObject [(''detail'', JString ''Internal Server Error'')]),
      status_code = 500\<rparr>"

section \<open>Decimal rendering and the timestamp\<close>

lemma dec_lt10: "n < 10 \<Longrightarrow> dec n = [digit_char n]"
  by (simp add: dec.simps)

lemma dec_ge10: "10 \<le> n \<Longrightarrow> dec n = dec (n div 10) @ [digit_char (n mod 10)]"
  by (subst dec.simps) simp

lemma length_dec2: "n < 100 \<Longrightarrow> length (dec n) \<le> 2"
  by (cases "n < 10") (simp_all add: dec_lt10 dec_ge10)

lemma length_dec3: "n < 1000 \<Longrightarrow> length (dec n) \<le> 3"
  using length_dec2 [of "n div 10"] by (cases "n < 10") (simp_all add: dec_lt10 dec_ge10)

lemma length_dec4: "n < 10000 \<Longrightarrow> length (dec n) \<le> 4"
  using length_dec3 [of "n div 10"] by (cases "n < 10") (simp_all add: dec_lt10 dec_ge10)

lemma length_zero_pad: "length (dec n) \<le> w \<Longrightarrow> length (zero_pad w n) = w"
  by (simp add: zero_pad_def)

lemma is_digit_digit_char: "is_digit (digit_char d)"
proof -
  have "d mod 10 = 0 \<or> d mod 10 = 1 \<or> d mod 10 = 2 \<or> d mod 10 = 3 \<or> d mod 10 = 4 \<or>
        d mod 10 = 5 \<or> d mod 10 = 6 \<or> d mod 10 = 7 \<or> d mod 10 = 8 \<or> d mod 10 = 9"
    by arith
  then show ?thesis unfolding is_digit_def digit_char_def
    by (elim disjE) simp_all
qed

lemma digits_dec: "list_all is_digit (dec n)"
proof (induction n rule: dec.induct)
  case (1 n)
  show ?case
  proof (cases "n < 10")
    case True
    then show ?thesis by (simp add: dec_lt10 is_digit_digit_char)
  next
    case False
    with 1 show ?thesis by (simp add: dec_ge10 is_digit_digit_char)
  qed
qed

lemma digits_zero_pad: "list_all is_digit (zero_pad w n)"
proof -
  have "list_all is_digit (replicate k CHR ''0'')" for k
    by (induction k) (simp_all add: is_digit_def)
  then show ?thesis by (simp add: zero_pad_def digits_dec)
qed

lemma is_digit_not_plus: "is_digit c \<Longrightarrow> c \<noteq> CHR ''+''"
  by (auto simp: is_digit_def)

lemma no_plus_zero_pad: "CHR ''+'' \<notin> set (zero_pad w n)"
  using digits_zero_pad [of w n] is_digit_not_plus by (auto simp: list_all_iff)

text \<open>The offset is the only place of an ISO text where a plus sign stands.\<close>

lemma replace_no_plus:
  "CHR ''+'' \<notin> set p \<Longrightarrow> replace ''+00:00'' ''Z'' (p @ ''+00:00'') = p @ ''Z''"
proof (induction p)
  case Nil
  show ?case by (simp add: replace.simps)
next
  case (Cons c p)
  then have "c \<noteq> CHR ''+''" by auto
  then have "replace ''+00:00'' ''Z'' ((c # p) @ ''+00:00'') =
             c # replace ''+00:00'' ''Z'' (p @ ''+00:00'')"
    by (subst replace.simps) simp
  with Cons show ?case by simp
qed

lemma now_text: "replace ''+00:00'' ''Z'' (isoformat_milliseconds t) = utc_timestamp_text t"
proof -
  define p where "p =
     zero_pad 4 (year t) @ ''-'' @ zero_pad 2 (month t) @ ''-'' @ zero_pad 2 (day t) @ ''T'' @
     zero_pad 2 (hour t) @ '':'' @ zero_pad 2 (minute t) @ '':'' @ zero_pad 2 (second t) @ ''.'' @
     zero_pad 3 (microsecond t div 1000)"
  have "CHR ''+'' \<notin> set p" by (simp add: p_def no_plus_zero_pad)
  then have "replace ''+00:00'' ''Z'' (p @ ''+00:00'') = p @ ''Z''" by (rule replace_no_plus)
  then show ?thesis by (simp add: p_def isoformat_milliseconds_def utc_timestamp_text_def)
qed

lemma no_substring_without_head: "c \<notin> set s \<Longrightarrow> \<not> has_substring (c # sub) s"
  by (induction s) auto

lemma timestamp_no_offset: "\<not> has_substring ''+00:00'' (utc_timestamp_text t)"
proof -
  have "CHR ''+'' \<notin> set (utc_timestamp_text t)"
    by (simp add: utc_timestamp_text_def no_plus_zero_pad)
  then show ?thesis by (rule no_substring_without_head)
qed

lemma matches_pattern_append:
  "length p = length s \<Longrightarrow>
   matches_pattern (p @ p') (s @ s') = (matches_pattern p s \<and> matches_pattern p' s')"
  by (induction p s rule: matches_pattern.induct) auto

lemma matches_pattern_digits:
  "list_all is_digit s \<Longrightarrow> matches_pattern (replicate (length s) CHR ''d'') s"
  by (induction s) auto

lemma matches_zero_pad:
  assumes "length (dec n) \<le> w"
  shows "matches_pattern (replicate w CHR ''d'' @ p') (zero_pad w n @ s') = matches_pattern p' s'"
proof -
  have len: "length (zero_pad w n) = w" using assms by (rule length_zero_pad)
  have "matches_pattern (replicate w CHR ''d'') (zero_pad w n)"
    using matches_pattern_digits [OF digits_zero_pad, of w n] by (simp add: len)
  then show ?thesis by (simp add: matches_pattern_append len)
qed

lemma timestamp_shape:
  assumes "valid_datetime t"
  shows "utc_millis_timestamp (utc_timestamp_text t)"
proof -
  have y: "length (dec (year t)) \<le> 4"
    using assms by (intro length_dec4) (simp add: valid_datetime_def)
  have mo: "length (dec (month t)) \<le> 2"
    using assms by (intro length_dec2) (simp add: valid_datetime_def)
  have d: "length (dec (day t)) \<le> 2"
    using assms by (intro length_dec2) (simp add: valid_datetime_def)
  have h: "length (dec (hour t)) \<le> 2"
    using assms by (intro length_dec2) (simp add: valid_datetime_def)
  have mi: "length (dec (minute t)) \<le> 2"
    using assms by (intro length_dec2) (simp add: valid_datetime_def)
  have s: "length (dec (second t)) \<le> 2"
    using assms by (intro length_dec2) (simp add: valid_datetime_def)
  have "microsecond t < 1000 * 1000" using assms by (simp add: valid_datetime_def)
  then have "microsecond t div 1000 < 1000" by (simp only: less_mult_imp_div_less)
  then have ms: "length (dec (microsecond t div 1000)) \<le> 3" by (rule length_dec3)
  have pat: "''dddd-dd-ddTdd:dd:dd.dddZ'' =
      replicate 4 CHR ''d'' @ ''-'' @ replicate 2 CHR ''d'' @ ''-'' @ replicate 2 CHR ''d'' @ ''T'' @
      replicate 2 CHR ''d'' @ '':'' @ replicate 2 CHR ''d'' @ '':'' @ replicate 2 CHR ''d'' @ ''.'' @
      replicate 3 CHR ''d'' @ ''Z''"
    by (simp add: numeral_eq_Suc)
  show ?thesis
    unfolding utc_millis_timestamp_def utc_timestamp_text_def pat
    by (simp only: matches_zero_pad [OF y] matches_zero_pad [OF mo] matches_zero_pad [OF d]
          matches_zero_pad [OF h] matches_zero_pad [OF mi] matches_zero_pad [OF s]
          matches_zero_pad [OF ms] append_Cons append_Nil matches_pattern.simps) simp
qed

lemma sample_time_text: "utc_timestamp_text sample_time = ''2026-03-07T09:05:00.042Z''"
  by (simp add: utc_timestamp_text_def sample_time_def zero_pad_def dec.simps digit_char_def)

lemma str_traceback_samples:
  "str_traceback traceback_of_run = ''<traceback object at 0x7f3a5c0b2d40>''"
  "str_traceback traceback_of_import = ''<traceback object at 0x7f3a5c0b2d40>''"
  by (simp_all add: str_traceback_def traceback_of_run_def traceback_of_import_def
      hex.simps hex_char_def)

section \<open>Properties of the update payload\<close>

text \<open>
  Claim C10. Whatever the status string and the failure argument, the payload is a dict
  with exactly the four keys \<open>status\<close>, \<open>started_at\<close>, \<open>finished_at\<close> and \<open>failure\<close>, in
  that order, and the value under \<open>status\<close> is the input string itself: nothing compares
  it with a list of allowed statuses.
\<close>

theorem payload_has_four_keys:
  "map fst (build_step_run_update status failure utc_now) =
     [''status'', ''started_at'', ''finished_at'', ''failure''] \<and>
   map_of (build_step_run_update status failure utc_now) ''status'' = Some (JString status)"
  by (simp add: build_step_run_update_def Let_def)

text \<open>
  Claim C9. Presence of the failure is decided by truth value: a failure object that is
  not \<open>None\<close> but evaluates as false leaves the \<open>failure\<close> field null, business error or
  not.
\<close>

theorem falsy_failure_gives_null:
  "\<not> truthy e \<Longrightarrow>
   map_of (build_step_run_update status (Some e) utc_now) ''failure'' = Some JNull"
  by (simp add: build_step_run_update_def Let_def)

theorem falsy_failure_gives_null_witness:
  "\<not> truthy falsy_business_error_X \<and> is_business_error falsy_business_error_X \<and>
   map_of (build_step_run_update ''failed'' (Some falsy_business_error_X) sample_time) ''failure'' =
     Some JNull"
proof -
  have f: "\<not> truthy falsy_business_error_X" by (simp add: falsy_business_error_X_def)
  have b: "is_business_error falsy_business_error_X" by (simp add: falsy_business_error_X_def)
  show ?thesis
    using f b falsy_failure_gives_null [OF f, of "''failed''" sample_time] by blast
qed

text \<open>
  Claim C3, as amended. For every failure that is present, evaluates as true and is a
  business error, the \<open>failure\<close> field holds \<open>error_code\<close> = the name of the error's
  class, \<open>message\<close> = the textual description of the error, and \<open>details\<close> = null when no
  traceback is attached. A true business error of class \<open>X\<close> with message \<open>boom\<close> gives
  \<open>error_code\<close> \<open>X\<close> and \<open>message\<close> \<open>boom\<close>. The amended claim leaves open what stands
  under \<open>details\<close> when a traceback is attached; the statement records what the code puts
  there, \<open>str\<close> of the traceback object.
\<close>

theorem business_error_payload:
  "truthy e \<Longrightarrow> is_business_error e \<Longrightarrow>
   map_of (build_step_run_update status (Some e) utc_now) ''failure'' =
     Some (JObject
       [(''error_code'', JString (class_name e)),
        (''message'', JString (str_of e)),
        (''details'',
           case traceback e of None \<Rightarrow> JNull | Some tb \<Rightarrow> JString (str_traceback tb))])"
  by (simp add: build_step_run_update_def Let_def)

theorem business_error_payload_witness:
  "truthy business_error_X \<and> is_business_error business_error_X \<and>
   map_of (build_step_run_update ''failed'' (Some business_error_X) sample_time) ''failure'' =
     Some (JObject
       [(''error_code'', JString ''X''),
        (''message'', JString ''boom''),
        (''details'', JString ''<traceback object at 0x7f3a5c0b2d40>'')]) \<and>
   truthy business_error_X_fresh \<and> is_business_error business_error_X_fresh \<and>
   map_of (build_step_run_update ''failed'' (Some business_error_X_fresh) sample_time) ''failure'' =
     Some (JObject
       [(''error_code'', JString ''X''),
        (''message'', JString ''boom''),
        (''details'', JNull)])"
proof -
  have t: "truthy business_error_X" and b: "is_business_error business_error_X"
    by (simp_all add: business_error_X_def)
  have t': "truthy business_error_X_fresh" and b': "is_business_error business_error_X_fresh"
    by (simp_all add: business_error_X_fresh_def)
  have r: "map_of (build_step_run_update ''failed'' (Some business_error_X) sample_time)
             ''failure'' =
     Some (JObject
       [(''error_code'', JString ''X''),
        (''message'', JString ''boom''),
        (''details'', JString ''<traceback object at 0x7f3a5c0b2d40>'')])"
    using business_error_payload [OF t b, of "''failed''" sample_time]
    by (simp add: business_error_X_def str_traceback_samples)
  have r': "map_of (build_step_run_update ''failed'' (Some business_error_X_fresh) sample_time)
              ''failure'' =
     Some (JObject
       [(''error_code'', JString ''X''),
        (''message'', JString ''boom''),
        (''details'', JNull)])"
    using business_error_payload [OF t' b', of "''failed''" sample_time]
    by (simp add: business_error_X_fresh_def)
  show ?thesis using t b t' b' r r' by blast
qed

text \<open>
  Claim C3 as written speaks of every failure that is present. A business error of class
  \<open>X\<close> with message \<open>boom\<close> that is present but evaluates as false gets no failure data
  at all: the field is null, so there is no \<open>error_code\<close> \<open>X\<close> in the payload. And for
  two true business errors whose tracebacks record different call stacks, \<open>details\<close> is
  one and the same text, which names the traceback object and none of its frames.
\<close>

theorem present_business_error_counterexample:
  "is_business_error falsy_business_error_X \<and>
   class_name falsy_business_error_X = ''X'' \<and> str_of falsy_business_error_X = ''boom'' \<and>
   map_of (build_step_run_update ''failed'' (Some falsy_business_error_X) sample_time) ''failure'' =
     Some JNull \<and>
   map_of (build_step_run_update ''failed'' (Some falsy_business_error_X) sample_time) ''failure'' \<noteq>
     Some (JObject
       [(''error_code'', JString ''X''), (''message'', JString ''boom''), (''details'', JNull)]) \<and>
   tb_frames traceback_of_run \<noteq> tb_frames traceback_of_import \<and>
   map_of (build_step_run_update ''failed'' (Some business_error_X) sample_time) ''failure'' =
     Some (JObject
       [(''error_code'', JString ''X''),
        (''message'', JString ''boom''),
        (''details'', JString ''<traceback object at 0x7f3a5c0b2d40>'')]) \<and>
   map_of (build_step_run_update ''failed'' (Some business_error_X_import) sample_time) ''failure'' =
     Some (JObject
       [(''error_code'', JString ''X''),
        (''message'', JString ''boom''),
        (''details'', JString ''<traceback object at 0x7f3a5c0b2d40>'')])"
proof -
  have a: "map_of (build_step_run_update ''failed'' (Some falsy_business_error_X) sample_time)
             ''failure'' = Some JNull"
    by (simp add: build_step_run_update_def Let_def falsy_business_error_X_def)
  have f: "tb_frames traceback_of_run \<noteq> tb_frames traceback_of_import"
    by (simp add: traceback_of_run_def traceback_of_import_def)
  have r: "map_of (build_step_run_update ''failed'' (Some business_error_X) sample_time)
             ''failure'' =
     Some (JObject
       [(''error_code'', JString ''X''),
        (''message'', JString ''boom''),
        (''details'', JString ''<traceback object at 0x7f3a5c0b2d40>'')])"
    by (simp add: build_step_run_update_def Let_def business_error_X_def str_traceback_samples)
  have i: "map_of (build_step_run_update ''failed'' (Some business_error_X_import) sample_time)
             ''failure'' =
     Some (JObject
       [(''error_code'', JString ''X''),
        (''message'', JString ''boom''),
        (''details'', JString ''<traceback object at 0x7f3a5c0b2d40>'')])"
    by (simp add: build_step_run_update_def Let_def business_error_X_import_def
        str_traceback_samples)
  show ?thesis
    using a f r i by (simp add: falsy_business_error_X_def)
qed

text \<open>
  Claim C4, as amended. For every failure that evaluates as true and is not a business
  error, the \<open>failure\<close> field is the fixed record with \<open>error_code\<close>
  \<open>ApplicationException\<close>, the fixed Danish message and the fixed Danish details. Nothing
  of the exception reaches the payload: two such exceptions give the same payload at the
  same time, whatever their class, message and traceback.
\<close>

theorem application_error_payload_fixed:
  "truthy e \<Longrightarrow> \<not> is_business_error e \<Longrightarrow> truthy e' \<Longrightarrow> \<not> is_business_error e' \<Longrightarrow>
   map_of (build_step_run_update status (Some e) utc_now) ''failure'' =
     Some (JObject
       [(''error_code'', JString ''ApplicationException''),
        (''message'', JString ''Processen er fejlet''),
        (''details'', JString
           (''Digitalisering unders'' @ [CHR 0xF8] @
            ''ger fejlen og genstarter processen.'' @ [CHR 0x0A, CHR 0x0A] @
            ''Kontakt Digitalisering hvis det ikke er l'' @ [CHR 0xF8] @
            ''st efter 2 arbejdsdage.''))]) \<and>
   build_step_run_update status (Some e) utc_now = build_step_run_update status (Some e') utc_now"
  by (simp add: build_step_run_update_def Let_def)

theorem application_error_payload_fixed_witness:
  "truthy value_error \<and> \<not> is_business_error value_error \<and>
   truthy key_error \<and> \<not> is_business_error key_error \<and>
   str_of value_error \<noteq> str_of key_error \<and>
   map_of (build_step_run_update ''failed'' (Some value_error) sample_time) ''failure'' =
     Some (JObject
       [(''error_code'', JString ''ApplicationException''),
        (''message'', JString ''Processen er fejlet''),
        (''details'', JString
           (''Digitalisering unders'' @ [CHR 0xF8] @
            ''ger fejlen og genstarter processen.'' @ [CHR 0x0A, CHR 0x0A] @
            ''Kontakt Digitalisering hvis det ikke er l'' @ [CHR 0xF8] @
            ''st efter 2 arbejdsdage.''))]) \<and>
   build_step_run_update ''failed'' (Some value_error) sample_time =
   build_step_run_update ''failed'' (Some key_error) sample_time"
proof -
  have h1: "truthy value_error" and h2: "\<not> is_business_error value_error"
    by (simp_all add: value_error_def)
  have h3: "truthy key_error" and h4: "\<not> is_business_error key_error"
    by (simp_all add: key_error_def)
  have h5: "str_of value_error \<noteq> str_of key_error"
    by (simp add: value_error_def key_error_def)
  show ?thesis
    using h1 h2 h3 h4 h5
      application_error_payload_fixed [OF h1 h2 h3 h4, of "''failed''" sample_time]
    by blast
qed

text \<open>
  Claim C4 as written speaks of every failure that is present and is not a business
  error. One that evaluates as false gets a null \<open>failure\<close> field instead of the fixed
  record, and its payload differs from the payload of another application error at the
  same time.
\<close>

theorem falsy_application_error_has_no_fixed_payload:
  "\<not> is_business_error falsy_application_error \<and> \<not> is_business_error value_error \<and>
   map_of (build_step_run_update ''failed'' (Some falsy_application_error) sample_time) ''failure'' =
     Some JNull \<and>
   build_step_run_update ''failed'' (Some falsy_application_error) sample_time \<noteq>
   build_step_run_update ''failed'' (Some value_error) sample_time"
  by (simp add: build_step_run_update_def Let_def falsy_application_error_def value_error_def)

text \<open>
  Claim C5. \<open>build_step_run_update("success", None)\<close> returns status \<open>success\<close>, a null
  failure, and the same text under \<open>started_at\<close> and \<open>finished_at\<close>: the one captured UTC
  time in ISO-8601 form with three decimals of the second and a final \<open>Z\<close>; the text
  \<open>+00:00\<close> does not occur in it.
\<close>

theorem success_payload_timestamp:
  assumes "valid_datetime utc_now"
  shows "build_step_run_update ''success'' None utc_now =
           [(''status'', JString ''success''),
            (''started_at'', JString (utc_timestamp_text utc_now)),
            (''finished_at'', JString (utc_timestamp_text utc_now)),
            (''failure'', JNull)] \<and>
         utc_millis_timestamp (utc_timestamp_text utc_now) \<and>
         last (utc_timestamp_text utc_now) = CHR ''Z'' \<and>
         \<not> has_substring ''+00:00'' (utc_timestamp_text utc_now)"
proof -
  have "build_step_run_update ''success'' None utc_now =
           [(''status'', JString ''success''),
            (''started_at'', JString (utc_timestamp_text utc_now)),
            (''finished_at'', JString (utc_timestamp_text utc_now)),
            (''failure'', JNull)]"
    by (simp add: build_step_run_update_def Let_def now_text)
  moreover have "utc_millis_timestamp (utc_timestamp_text utc_now)"
    using assms by (rule timestamp_shape)
  moreover have "last (utc_timestamp_text utc_now) = CHR ''Z''"
    by (simp add: utc_timestamp_text_def)
  moreover have "\<not> has_substring ''+00:00'' (utc_timestamp_text utc_now)"
    by (rule timestamp_no_offset)
  ultimately show ?thesis by blast
qed

theorem success_payload_timestamp_witness:
  "valid_datetime sample_time \<and>
   build_step_run_update ''success'' None sample_time =
     [(''status'', JString ''success''),
      (''started_at'', JString ''2026-03-07T09:05:00.042Z''),
      (''finished_at'', JString ''2026-03-07T09:05:00.042Z''),
      (''failure'', JNull)] \<and>
   utc_millis_timestamp ''2026-03-07T09:05:00.042Z'' \<and>
   \<not> has_substring ''+00:00'' ''2026-03-07T09:05:00.042Z''"
proof -
  have v: "valid_datetime sample_time" by (simp add: valid_datetime_def sample_time_def)
  show ?thesis
    using v success_payload_timestamp [OF v] by (simp add: sample_time_text)
qed

text \<open>
  Claim C6. The payload is a function of status, failure and the captured time. Two calls
  with the same status and failure give the same payload when the captured time renders
  to the same text, and otherwise differ in nothing but the values under \<open>started_at\<close>
  and \<open>finished_at\<close>: the keys are the same, every other key has the same value, and
  overwriting the two timestamps of one payload gives the other.
\<close>

theorem payload_differs_only_in_timestamps:
  "(isoformat_milliseconds t1 = isoformat_milliseconds t2 \<longrightarrow>
      build_step_run_update status failure t1 = build_step_run_update status failure t2) \<and>
   map fst (build_step_run_update status failure t1) =
   map fst (build_step_run_update status failure t2) \<and>
   (\<forall>key. key \<noteq> ''started_at'' \<and> key \<noteq> ''finished_at'' \<longrightarrow>
      map_of (build_step_run_update status failure t1) key =
      map_of (build_step_run_update status failure t2) key) \<and>
   build_step_run_update status failure t2 =
     dict_set ''started_at'' (JString (replace ''+00:00'' ''Z'' (isoformat_milliseconds t2)))
       (dict_set ''finished_at'' (JString (replace ''+00:00'' ''Z'' (isoformat_milliseconds t2)))
          (build_step_run_update status failure t1))"
  by (simp add: build_step_run_update_def Let_def)

theorem payload_differs_only_in_timestamps_witness:
  "isoformat_milliseconds sample_time = isoformat_milliseconds same_millisecond \<and>
   sample_time \<noteq> same_millisecond \<and>
   build_step_run_update ''failed'' (Some business_error_X) sample_time =
   build_step_run_update ''failed'' (Some business_error_X) same_millisecond \<and>
   build_step_run_update ''failed'' (Some business_error_X) sample_time \<noteq>
   build_step_run_update ''failed'' (Some business_error_X) next_day \<and>
   map_of (build_step_run_update ''failed'' (Some business_error_X) sample_time) ''failure'' =
   map_of (build_step_run_update ''failed'' (Some business_error_X) next_day) ''failure'' \<and>
   map_of (build_step_run_update ''failed'' (Some business_error_X) sample_time) ''status'' =
   map_of (build_step_run_update ''failed'' (Some business_error_X) next_day) ''status''"
proof -
  let ?b = "build_step_run_update ''failed'' (Some business_error_X)"
  have i: "isoformat_milliseconds sample_time = isoformat_milliseconds same_millisecond"
    by (simp add: isoformat_milliseconds_def sample_time_def same_millisecond_def)
  have n: "sample_time \<noteq> same_millisecond"
    by (simp add: sample_time_def same_millisecond_def)
  have d: "?b sample_time \<noteq> ?b next_day"
    by (simp add: build_step_run_update_def Let_def now_text utc_timestamp_text_def
        sample_time_def next_day_def zero_pad_def dec.simps digit_char_def)
  from payload_differs_only_in_timestamps
         [of sample_time same_millisecond "''failed''" "Some business_error_X"] i
  have a: "?b sample_time = ?b same_millisecond" by blast
  from payload_differs_only_in_timestamps
         [of sample_time next_day "''failed''" "Some business_error_X"]
  have k: "\<forall>key. key \<noteq> ''started_at'' \<and> key \<noteq> ''finished_at'' \<longrightarrow>
             map_of (?b sample_time) key = map_of (?b next_day) key"
    by blast
  have f: "map_of (?b sample_time) ''failure'' = map_of (?b next_day) ''failure''"
    using k by simp
  have s: "map_of (?b sample_time) ''status'' = map_of (?b next_day) ''status''"
    using k by simp
  show ?thesis using i n d a f s by blast
qed

section \<open>Properties of the step-run look-up\<close>

lemmas io_defs =
  bind_io_def call_io_def logger_info_def result_io_def return_io_def raise_io_def

text \<open>The stub client answers the three look-ups with 7, 11 and 42.\<close>

lemma stub_process_id:
  "fails_at \<noteq> 1 \<Longrightarrow>
   get_dashboard_process_id (stub_client fails_at res) name w = (Inr 7, Suc w)"
  by (simp add: stub_client_def)

lemma stub_step_id:
  "fails_at \<noteq> 2 \<Longrightarrow>
   get_dashboard_step_id (stub_client fails_at res) 7 name w = (Inr 11, Suc w)"
  by (simp add: stub_client_def)

lemma stub_run_id:
  "fails_at \<noteq> 3 \<Longrightarrow>
   get_dashboard_run_id (stub_client fails_at res) 7 cpr w = (Inr 42, Suc w)"
  by (simp add: stub_client_def)

lemma stub_get:
  "fails_at \<noteq> 4 \<Longrightarrow> client_get (stub_client fails_at res) path w = (Inr res, Suc w)"
  by (simp add: stub_client_def)

lemma str_int_samples: "str_int 42 = ''42''" "str_int 11 = ''11''" "str_int 31 = ''31''"
  by (simp_all add: str_int_def dec.simps digit_char_def)

text \<open>
  Claim C1. When the three identity look-ups succeed and the body of the GET response
  holds a non-null \<open>id\<close>, the look-up returns exactly the value of that field.
\<close>

theorem step_run_id_is_response_id:
  assumes "get_dashboard_process_id client process_name w = (Inr process_id, w1)"
    and "get_dashboard_step_id client process_id step_name w1 = (Inr step_id, w2)"
    and "get_dashboard_run_id client process_id cpr w2 = (Inr run_id, w3)"
    and "client_get client
           (''step-runs/run/'' @ str_int run_id @ ''/step/'' @ str_int step_id @
            ''?include_deleted=false'') w3 = (Inr res, w4)"
    and "json_body res = Inr (JObject body)"
    and "map_of body ''id'' = Some v"
    and "v \<noteq> JNull"
  shows "fst (get_step_run_id_for_process_step_cpr client process_name step_name cpr
                (w, journal)) = Inr v"
  using assms
  by (simp add: get_step_run_id_for_process_step_cpr_def step_run_path_def io_defs)

theorem step_run_id_is_response_id_witness:
  "fst (get_step_run_id_for_process_step_cpr (stub_client 0 found_response)
          ''Proc'' ''Step'' ''0101011234'' (0, [])) = Inr (JInt 31)"
proof -
  have h1: "get_dashboard_process_id (stub_client 0 found_response) ''Proc'' 0 = (Inr 7, 1)"
    by (simp add: stub_process_id)
  have h2: "get_dashboard_step_id (stub_client 0 found_response) 7 ''Step'' 1 = (Inr 11, 2)"
    by (simp add: stub_step_id)
  have h3: "get_dashboard_run_id (stub_client 0 found_response) 7 ''0101011234'' 2 = (Inr 42, 3)"
    by (simp add: stub_run_id)
  have h4: "client_get (stub_client 0 found_response)
              (''step-runs/run/'' @ str_int 42 @ ''/step/'' @ str_int 11 @
               ''?include_deleted=false'') 3 = (Inr found_response, 4)"
    by (simp add: stub_get)
  have h5: "json_body found_response =
              Inr (JObject [(''id'', JInt 31), (''status'', JString ''pending'')])"
    by (simp add: found_response_def)
  have h6: "map_of [(''id'', JInt 31), (''status'', JString ''pending'')] ''id'' = Some (JInt 31)"
    by simp
  have h7: "JInt 31 \<noteq> JNull" by simp
  show ?thesis by (rule step_run_id_is_response_id [OF h1 h2 h3 h4 h5 h6 h7])
qed

text \<open>
  Claim C2, as amended. Once the GET has answered with a parsed body, the look-up raises
  the not-found error exactly when that body is a dict that has no \<open>id\<close> or holds null
  under it, and returns a value exactly when the body is a dict with a non-null \<open>id\<close>; a
  body that is not a dict ends in Python's \<open>AttributeError\<close>. Whatever the collaborators
  do, a value that is returned is never null.
\<close>

theorem not_found_iff_dict_without_id:
  "(get_dashboard_process_id client process_name w = (Inr process_id, w1) \<and>
    get_dashboard_step_id client process_id step_name w1 = (Inr step_id, w2) \<and>
    get_dashboard_run_id client process_id cpr w2 = (Inr run_id, w3) \<and>
    client_get client
      (''step-runs/run/'' @ str_int run_id @ ''/step/'' @ str_int step_id @
       ''?include_deleted=false'') w3 = (Inr res, w4) \<and>
    json_body res = Inr b \<longrightarrow>
      (fst (get_step_run_id_for_process_step_cpr client process_name step_name cpr (w, journal)) =
         Inl (RuntimeError ''Step run ID not found for process/step/CPR combination.'')
       \<longleftrightarrow> (\<exists>d. b = JObject d \<and> (map_of d ''id'' = None \<or> map_of d ''id'' = Some JNull))) \<and>
      ((\<exists>v. fst (get_step_run_id_for_process_step_cpr client process_name step_name cpr
                   (w, journal)) = Inr v)
       \<longleftrightarrow> (\<exists>d v. b = JObject d \<and> map_of d ''id'' = Some v \<and> v \<noteq> JNull)) \<and>
      ((\<forall>d. b \<noteq> JObject d) \<longrightarrow>
         fst (get_step_run_id_for_process_step_cpr client process_name step_name cpr
                (w, journal)) =
           Inl (AttributeError
                  ([CHR 0x27] @ type_name b @ [CHR 0x27] @ '' object has no attribute '' @
                   [CHR 0x27] @ ''get'' @ [CHR 0x27])))) \<and>
   (\<forall>v. fst (get_step_run_id_for_process_step_cpr client process_name step_name cpr s) = Inr v
      \<longrightarrow> v \<noteq> JNull)"
proof (intro conjI impI allI)
  fix v
  assume "fst (get_step_run_id_for_process_step_cpr client process_name step_name cpr s) = Inr v"
  then show "v \<noteq> JNull"
    by (auto simp: get_step_run_id_for_process_step_cpr_def io_defs
        split: prod.splits sum.splits if_splits)
next
  assume chain: "get_dashboard_process_id client process_name w = (Inr process_id, w1) \<and>
    get_dashboard_step_id client process_id step_name w1 = (Inr step_id, w2) \<and>
    get_dashboard_run_id client process_id cpr w2 = (Inr run_id, w3) \<and>
    client_get client
      (''step-runs/run/'' @ str_int run_id @ ''/step/'' @ str_int step_id @
       ''?include_deleted=false'') w3 = (Inr res, w4) \<and>
    json_body res = Inr b"
  then have r:
    "fst (get_step_run_id_for_process_step_cpr client process_name step_name cpr (w, journal)) =
       (case py_get b ''id'' of
          Inl e \<Rightarrow> Inl e
        | Inr v \<Rightarrow>
            if v = JNull
            then Inl (RuntimeError ''Step run ID not found for process/step/CPR combination.'')
            else Inr v)"
    by (simp add: get_step_run_id_for_process_step_cpr_def step_run_path_def io_defs
        split: sum.splits)
  show "fst (get_step_run_id_for_process_step_cpr client process_name step_name cpr (w, journal)) =
          Inl (RuntimeError ''Step run ID not found for process/step/CPR combination.'')
        \<longleftrightarrow> (\<exists>d. b = JObject d \<and> (map_of d ''id'' = None \<or> map_of d ''id'' = Some JNull))"
    unfolding r by (cases b) (simp_all split: option.splits)
  show "(\<exists>v. fst (get_step_run_id_for_process_step_cpr client process_name step_name cpr
                    (w, journal)) = Inr v)
        \<longleftrightarrow> (\<exists>d v. b = JObject d \<and> map_of d ''id'' = Some v \<and> v \<noteq> JNull)"
    unfolding r by (cases b) (simp_all split: option.splits)
  show "fst (get_step_run_id_for_process_step_cpr client process_name step_name cpr
               (w, journal)) =
          Inl (AttributeError
                 ([CHR 0x27] @ type_name b @ [CHR 0x27] @ '' object has no attribute '' @
                  [CHR 0x27] @ ''get'' @ [CHR 0x27]))"
    if "\<forall>d. b \<noteq> JObject d"
    using that unfolding r by (cases b) simp_all
qed

theorem not_found_iff_dict_without_id_witness:
  "fst (get_step_run_id_for_process_step_cpr (stub_client 0 missing_response)
          ''Proc'' ''Step'' ''0101011234'' (0, [])) =
     Inl (RuntimeError ''Step run ID not found for process/step/CPR combination.'') \<and>
   fst (get_step_run_id_for_process_step_cpr (stub_client 0 null_id_response)
          ''Proc'' ''Step'' ''0101011234'' (0, [])) =
     Inl (RuntimeError ''Step run ID not found for process/step/CPR combination.'') \<and>
   fst (get_step_run_id_for_process_step_cpr (stub_client 0 found_response)
          ''Proc'' ''Step'' ''0101011234'' (0, [])) \<noteq>
     Inl (RuntimeError ''Step run ID not found for process/step/CPR combination.'') \<and>
   (\<exists>v. fst (get_step_run_id_for_process_step_cpr (stub_client 0 found_response)
               ''Proc'' ''Step'' ''0101011234'' (0, [])) = Inr v \<and> v \<noteq> JNull) \<and>
   fst (get_step_run_id_for_process_step_cpr
          (stub_client 0 \<lparr>json_body = Inr (JArray []), status_code = 200\<rparr>)
          ''Proc'' ''Step'' ''0101011234'' (0, [])) =
     Inl (AttributeError
            ([CHR 0x27] @ ''list'' @ [CHR 0x27] @ '' object has no attribute '' @
             [CHR 0x27] @ ''get'' @ [CHR 0x27]))"
proof -
  let ?run = "\<lambda>res. fst (get_step_run_id_for_process_step_cpr (stub_client 0 res)
                           ''Proc'' ''Step'' ''0101011234'' (0, []))"
  let ?nf = "Inl (RuntimeError ''Step run ID not found for process/step/CPR combination.'')
               :: error + json"
  have chain:
    "get_dashboard_process_id (stub_client 0 res) ''Proc'' 0 = (Inr 7, 1) \<and>
     get_dashboard_step_id (stub_client 0 res) 7 ''Step'' 1 = (Inr 11, 2) \<and>
     get_dashboard_run_id (stub_client 0 res) 7 ''0101011234'' 2 = (Inr 42, 3) \<and>
     client_get (stub_client 0 res)
       (''step-runs/run/'' @ str_int 42 @ ''/step/'' @ str_int 11 @
        ''?include_deleted=false'') 3 = (Inr res, 4)" for res
    by (simp add: stub_process_id stub_step_id stub_run_id stub_get)
  note at = not_found_iff_dict_without_id
      [where process_name = "''Proc''" and step_name = "''Step''" and cpr = "''0101011234''"
         and w = 0 and ?w1.0 = 1 and ?w2.0 = 2 and ?w3.0 = 3 and ?w4.0 = 4
         and process_id = 7 and step_id = 11 and run_id = 42 and journal = "[]"
         and s = "(0, [])"]
  have m: "json_body missing_response = Inr (JObject [(''detail'', JString ''Not found'')])"
    by (simp add: missing_response_def)
  have n: "json_body null_id_response = Inr (JObject [(''id'', JNull)])"
    by (simp add: null_id_response_def)
  have f: "json_body found_response =
             Inr (JObject [(''id'', JInt 31), (''status'', JString ''pending'')])"
    by (simp add: found_response_def)
  have l: "json_body \<lparr>json_body = Inr (JArray []), status_code = 200\<rparr> = Inr (JArray [])"
    by simp
  have a: "?run missing_response = ?nf"
    using at [where client = "stub_client 0 missing_response" and res = missing_response
                and b = "JObject [(''detail'', JString ''Not found'')]"]
      chain [of missing_response] m
    by simp
  have b: "?run null_id_response = ?nf"
    using at [where client = "stub_client 0 null_id_response" and res = null_id_response
                and b = "JObject [(''id'', JNull)]"]
      chain [of null_id_response] n
    by simp
  note found = at [where client = "stub_client 0 found_response" and res = found_response
                     and b = "JObject [(''id'', JInt 31), (''status'', JString ''pending'')]"]
  have c: "?run found_response \<noteq> ?nf"
    using found chain [of found_response] f by simp
  have d: "\<exists>v. ?run found_response = Inr v"
    using found chain [of found_response] f by simp
  have e: "\<forall>v. ?run found_response = Inr v \<longrightarrow> v \<noteq> JNull"
    using found by blast
  have g: "?run \<lparr>json_body = Inr (JArray []), status_code = 200\<rparr> =
             Inl (AttributeError
                    ([CHR 0x27] @ ''list'' @ [CHR 0x27] @ '' object has no attribute '' @
                     [CHR 0x27] @ ''get'' @ [CHR 0x27]))"
    using at [where client = "stub_client 0 \<lparr>json_body = Inr (JArray []), status_code = 200\<rparr>"
                and res = "\<lparr>json_body = Inr (JArray []), status_code = 200\<rparr>"
                and b = "JArray []"]
      chain [of "\<lparr>json_body = Inr (JArray []), status_code = 200\<rparr>"] l
    by simp
  show ?thesis using a b c d e g by blast
qed

text \<open>
  Claim C2 as written makes the not-found error the outcome whenever the body of the GET
  response lacks an \<open>id\<close>. The JSON text \<open>null\<close> is a body without an \<open>id\<close>; the three
  look-ups and the GET succeed, and the outcome is \<open>AttributeError\<close>, not the not-found
  error.
\<close>

theorem null_body_raises_attribute_error:
  "json_body null_body_response = Inr JNull \<and>
   fst (get_step_run_id_for_process_step_cpr (stub_client 0 null_body_response)
          ''Proc'' ''Step'' ''0101011234'' (0, [])) =
     Inl (AttributeError
            ([CHR 0x27] @ ''NoneType'' @ [CHR 0x27] @ '' object has no attribute '' @
             [CHR 0x27] @ ''get'' @ [CHR 0x27])) \<and>
   fst (get_step_run_id_for_process_step_cpr (stub_client 0 null_body_response)
          ''Proc'' ''Step'' ''0101011234'' (0, [])) \<noteq>
     Inl (RuntimeError ''Step run ID not found for process/step/CPR combination.'')"
  by (simp add: get_step_run_id_for_process_step_cpr_def step_run_path_def io_defs
      stub_client_def null_body_response_def)

text \<open>
  Claim C8. The look-up calls, in this order, the process look-up with the process name,
  the step look-up with the process id and the step name, the run look-up with the
  process id and the case number, and then GET
  \<open>step-runs/run/{run_id}/step/{step_id}?include_deleted=false\<close>. When one of them
  raises, its exception is the outcome, the world is the one that call left, and the
  journal ends with that call: nothing is tried again and nothing is called after it.
\<close>

theorem lookup_order_and_fail_fast:
  "(\<forall>e w1.
      get_dashboard_process_id client process_name w = (Inl e, w1) \<longrightarrow>
      get_step_run_id_for_process_step_cpr client process_name step_name cpr (w, journal) =
        (Inl e,
         (w1, journal @
            [LoggerInfo (''Finding step-run ID for '' @ process_name @ '' / '' @ step_name @
                         '' / '' @ cpr),
             GetDashboardProcessId process_name]))) \<and>
   (\<forall>process_id w1 e w2.
      get_dashboard_process_id client process_name w = (Inr process_id, w1) \<and>
      get_dashboard_step_id client process_id step_name w1 = (Inl e, w2) \<longrightarrow>
      get_step_run_id_for_process_step_cpr client process_name step_name cpr (w, journal) =
        (Inl e,
         (w2, journal @
            [LoggerInfo (''Finding step-run ID for '' @ process_name @ '' / '' @ step_name @
                         '' / '' @ cpr),
             GetDashboardProcessId process_name,
             GetDashboardStepId process_id step_name]))) \<and>
   (\<forall>process_id w1 step_id w2 e w3.
      get_dashboard_process_id client process_name w = (Inr process_id, w1) \<and>
      get_dashboard_step_id client process_id step_name w1 = (Inr step_id, w2) \<and>
      get_dashboard_run_id client process_id cpr w2 = (Inl e, w3) \<longrightarrow>
      get_step_run_id_for_process_step_cpr client process_name step_name cpr (w, journal) =
        (Inl e,
         (w3, journal @
            [LoggerInfo (''Finding step-run ID for '' @ process_name @ '' / '' @ step_name @
                         '' / '' @ cpr),
             GetDashboardProcessId process_name,
             GetDashboardStepId process_id step_name,
             GetDashboardRunId process_id cpr]))) \<and>
   (\<forall>process_id w1 step_id w2 run_id w3 r w4.
      get_dashboard_process_id client process_name w = (Inr process_id, w1) \<and>
      get_dashboard_step_id client process_id step_name w1 = (Inr step_id, w2) \<and>
      get_dashboard_run_id client process_id cpr w2 = (Inr run_id, w3) \<and>
      client_get client
        (''step-runs/run/'' @ str_int run_id @ ''/step/'' @ str_int step_id @
         ''?include_deleted=false'') w3 = (r, w4) \<longrightarrow>
      snd (get_step_run_id_for_process_step_cpr client process_name step_name cpr (w, journal)) =
        (w4, journal @
            [LoggerInfo (''Finding step-run ID for '' @ process_name @ '' / '' @ step_name @
                         '' / '' @ cpr),
             GetDashboardProcessId process_name,
             GetDashboardStepId process_id step_name,
             GetDashboardRunId process_id cpr,
             ClientGet (''step-runs/run/'' @ str_int run_id @ ''/step/'' @ str_int step_id @
                        ''?include_deleted=false'')]) \<and>
      (\<forall>e. r = Inl e \<longrightarrow>
         fst (get_step_run_id_for_process_step_cpr client process_name step_name cpr
                (w, journal)) = Inl e))"
  by (auto simp: get_step_run_id_for_process_step_cpr_def step_run_path_def io_defs
      split: prod.splits sum.splits)

theorem lookup_order_and_fail_fast_witness:
  "get_step_run_id_for_process_step_cpr (stub_client 1 found_response)
     ''Proc'' ''Step'' ''0101011234'' (0, []) =
     (Inl (Raised ''process not found''),
      (1, [LoggerInfo ''Finding step-run ID for Proc / Step / 0101011234'',
           GetDashboardProcessId ''Proc''])) \<and>
   get_step_run_id_for_process_step_cpr (stub_client 2 found_response)
     ''Proc'' ''Step'' ''0101011234'' (0, []) =
     (Inl (Raised ''step not found''),
      (2, [LoggerInfo ''Finding step-run ID for Proc / Step / 0101011234'',
           GetDashboardProcessId ''Proc'', GetDashboardStepId 7 ''Step''])) \<and>
   get_step_run_id_for_process_step_cpr (stub_client 3 found_response)
     ''Proc'' ''Step'' ''0101011234'' (0, []) =
     (Inl (Raised ''run not found''),
      (3, [LoggerInfo ''Finding step-run ID for Proc / Step / 0101011234'',
           GetDashboardProcessId ''Proc'', GetDashboardStepId 7 ''Step'',
           GetDashboardRunId 7 ''0101011234''])) \<and>
   get_step_run_id_for_process_step_cpr (stub_client 4 found_response)
     ''Proc'' ''Step'' ''0101011234'' (0, []) =
     (Inl (Raised ''ConnectionError''),
      (4, [LoggerInfo ''Finding step-run ID for Proc / Step / 0101011234'',
           GetDashboardProcessId ''Proc'', GetDashboardStepId 7 ''Step'',
           GetDashboardRunId 7 ''0101011234'',
           ClientGet ''step-runs/run/42/step/11?include_deleted=false''])) \<and>
   snd (get_step_run_id_for_process_step_cpr (stub_client 0 found_response)
          ''Proc'' ''Step'' ''0101011234'' (0, [])) =
     (4, [LoggerInfo ''Finding step-run ID for Proc / Step / 0101011234'',
          GetDashboardProcessId ''Proc'', GetDashboardStepId 7 ''Step'',
          GetDashboardRunId 7 ''0101011234'',
          ClientGet ''step-runs/run/42/step/11?include_deleted=false''])"
proof -
  let ?run = "\<lambda>k. get_step_run_id_for_process_step_cpr (stub_client k found_response)
                     ''Proc'' ''Step'' ''0101011234'' (0, [])"
  note order = lookup_order_and_fail_fast
    [where process_name = "''Proc''" and step_name = "''Step''" and cpr = "''0101011234''"
       and w = 0 and journal = "[]"]
  have p1: "get_dashboard_process_id (stub_client 1 found_response) ''Proc'' 0 =
              (Inl (Raised ''process not found''), 1)"
    by (simp add: stub_client_def)
  have s2: "get_dashboard_step_id (stub_client 2 found_response) 7 ''Step'' 1 =
              (Inl (Raised ''step not found''), 2)"
    by (simp add: stub_client_def)
  have r3: "get_dashboard_run_id (stub_client 3 found_response) 7 ''0101011234'' 2 =
              (Inl (Raised ''run not found''), 3)"
    by (simp add: stub_client_def)
  have g4: "client_get (stub_client 4 found_response)
              (''step-runs/run/'' @ str_int 42 @ ''/step/'' @ str_int 11 @
               ''?include_deleted=false'') 3 = (Inl (Raised ''ConnectionError''), 4)"
    by (simp add: stub_client_def)
  have p: "k \<noteq> 1 \<Longrightarrow>
           get_dashboard_process_id (stub_client k found_response) ''Proc'' 0 = (Inr 7, 1)" for k
    by (simp add: stub_process_id)
  have s: "k \<noteq> 2 \<Longrightarrow>
           get_dashboard_step_id (stub_client k found_response) 7 ''Step'' 1 = (Inr 11, 2)" for k
    by (simp add: stub_step_id)
  have r: "k \<noteq> 3 \<Longrightarrow>
           get_dashboard_run_id (stub_client k found_response) 7 ''0101011234'' 2 = (Inr 42, 3)"
    for k
    by (simp add: stub_run_id)
  have g0: "client_get (stub_client 0 found_response)
              (''step-runs/run/'' @ str_int 42 @ ''/step/'' @ str_int 11 @
               ''?include_deleted=false'') 3 = (Inr found_response, 4)"
    by (simp add: stub_get)
  have a1: "?run 1 =
     (Inl (Raised ''process not found''),
      (1, [LoggerInfo ''Finding step-run ID for Proc / Step / 0101011234'',
           GetDashboardProcessId ''Proc'']))"
    using order [where client = "stub_client 1 found_response"] p1 by simp
  have a2: "?run 2 =
     (Inl (Raised ''step not found''),
      (2, [LoggerInfo ''Finding step-run ID for Proc / Step / 0101011234'',
           GetDashboardProcessId ''Proc'', GetDashboardStepId 7 ''Step'']))"
    using order [where client = "stub_client 2 found_response"] p [of 2] s2 by simp
  have a3: "?run 3 =
     (Inl (Raised ''run not found''),
      (3, [LoggerInfo ''Finding step-run ID for Proc / Step / 0101011234'',
           GetDashboardProcessId ''Proc'', GetDashboardStepId 7 ''Step'',
           GetDashboardRunId 7 ''0101011234'']))"
    using order [where client = "stub_client 3 found_response"] p [of 3] s [of 3] r3 by simp
  have a4: "snd (?run 4) =
      (4, [LoggerInfo ''Finding step-run ID for Proc / Step / 0101011234'',
           GetDashboardProcessId ''Proc'', GetDashboardStepId 7 ''Step'',
           GetDashboardRunId 7 ''0101011234'',
           ClientGet ''step-runs/run/42/step/11?include_deleted=false'']) \<and>
      fst (?run 4) = Inl (Raised ''ConnectionError'')"
    using order [where client = "stub_client 4 found_response"] p [of 4] s [of 4] r [of 4] g4
    by (simp add: str_int_samples)
  have a0: "snd (?run 0) =
      (4, [LoggerInfo ''Finding step-run ID for Proc / Step / 0101011234'',
           GetDashboardProcessId ''Proc'', GetDashboardStepId 7 ''Step'',
           GetDashboardRunId 7 ''0101011234'',
           ClientGet ''step-runs/run/42/step/11?include_deleted=false''])"
    using order [where client = "stub_client 0 found_response"] p [of 0] s [of 0] r [of 0] g0
    by (simp add: str_int_samples)
  from a4 have a4': "?run 4 =
     (Inl (Raised ''ConnectionError''),
      (4, [LoggerInfo ''Finding step-run ID for Proc / Step / 0101011234'',
           GetDashboardProcessId ''Proc'', GetDashboardStepId 7 ''Step'',
           GetDashboardRunId 7 ''0101011234'',
           ClientGet ''step-runs/run/42/step/11?include_deleted=false'']))"
    by (simp add: prod_eq_iff)
  show ?thesis using a1 a2 a3 a4' a0 by blast
qed

section \<open>Properties of the update call\<close>

text \<open>
  Claim C7. For every step-run id and payload, the update makes one PATCH to
  \<open>step-runs/{step_run_id}\<close> with the payload it was given, and nothing else after it.
  Its outcome is what the client produced: when the client answers and the body parses,
  the pair of that parsed body and that status code, whatever the status code is; when
  the PATCH or the parsing raises, that same exception.
\<close>

theorem update_patches_once_and_returns_response:
  "(\<forall>res w' body.
      client_patch client (''step-runs/'' @ str_int step_run_id) update_data w = (Inr res, w') \<and>
      json_body res = Inr body \<longrightarrow>
      update_dashboard_step_run_by_id client step_run_id update_data (w, journal) =
        (Inr (body, status_code res),
         (w', journal @ [LoggerInfo (''Updating step run ID '' @ str_int step_run_id),
                         ClientPatch (''step-runs/'' @ str_int step_run_id) update_data]))) \<and>
   (\<forall>res w' e.
      client_patch client (''step-runs/'' @ str_int step_run_id) update_data w = (Inr res, w') \<and>
      json_body res = Inl e \<longrightarrow>
      update_dashboard_step_run_by_id client step_run_id update_data (w, journal) =
        (Inl e,
         (w', journal @ [LoggerInfo (''Updating step run ID '' @ str_int step_run_id),
                         ClientPatch (''step-runs/'' @ str_int step_run_id) update_data]))) \<and>
   (\<forall>e w'.
      client_patch client (''step-runs/'' @ str_int step_run_id) update_data w = (Inl e, w') \<longrightarrow>
      update_dashboard_step_run_by_id client step_run_id update_data (w, journal) =
        (Inl e,
         (w', journal @ [LoggerInfo (''Updating step run ID '' @ str_int step_run_id),
                         ClientPatch (''step-runs/'' @ str_int step_run_id) update_data])))"
  by (simp add: update_dashboard_step_run_by_id_def io_defs)

theorem update_patches_once_and_returns_response_witness:
  "update_dashboard_step_run_by_id (stub_client 0 server_error_response) 31
     (JObject (build_step_run_update ''success'' None sample_time)) (0, []) =
     (Inr (JObject [(''detail'', JString ''Internal Server Error'')], 500),
      (1, [LoggerInfo ''Updating step run ID 31'',
           ClientPatch ''step-runs/31''
             (JObject (build_step_run_update ''success'' None sample_time))])) \<and>
   update_dashboard_step_run_by_id (stub_client 0 unparsable_response) 31
     (JObject (build_step_run_update ''success'' None sample_time)) (0, []) =
     (Inl (Raised ''JSONDecodeError''),
      (1, [LoggerInfo ''Updating step run ID 31'',
           ClientPatch ''step-runs/31''
             (JObject (build_step_run_update ''success'' None sample_time))])) \<and>
   update_dashboard_step_run_by_id (stub_client 5 found_response) 31
     (JObject (build_step_run_update ''success'' None sample_time)) (0, []) =
     (Inl (Raised ''ConnectionError''),
      (1, [LoggerInfo ''Updating step run ID 31'',
           ClientPatch ''step-runs/31''
             (JObject (build_step_run_update ''success'' None sample_time))]))"
proof -
  let ?payload = "JObject (build_step_run_update ''success'' None sample_time)"
  note at = update_patches_once_and_returns_response
      [where step_run_id = 31 and update_data = ?payload and w = 0 and journal = "[]"]
  have p: "k \<noteq> 5 \<Longrightarrow>
           client_patch (stub_client k res) (''step-runs/'' @ str_int 31) ?payload 0 =
             (Inr res, 1)" for k res
    by (simp add: stub_client_def)
  have q: "client_patch (stub_client 5 found_response) (''step-runs/'' @ str_int 31) ?payload 0 =
             (Inl (Raised ''ConnectionError''), 1)"
    by (simp add: stub_client_def)
  have b: "json_body server_error_response =
             Inr (JObject [(''detail'', JString ''Internal Server Error'')])"
    and c: "status_code server_error_response = 500"
    by (simp_all add: server_error_response_def)
  have u: "json_body unparsable_response = Inl (Raised ''JSONDecodeError'')"
    by (simp add: unparsable_response_def)
  have r1: "update_dashboard_step_run_by_id (stub_client 0 server_error_response) 31 ?payload
              (0, []) =
     (Inr (JObject [(''detail'', JString ''Internal Server Error'')], 500),
      (1, [LoggerInfo ''Updating step run ID 31'', ClientPatch ''step-runs/31'' ?payload]))"
    using at [where client = "stub_client 0 server_error_response"]
      p [of 0 server_error_response] b c
    by (simp add: str_int_samples)
  have r2: "update_dashboard_step_run_by_id (stub_client 0 unparsable_response) 31 ?payload
              (0, []) =
     (Inl (Raised ''JSONDecodeError''),
      (1, [LoggerInfo ''Updating step run ID 31'', ClientPatch ''step-runs/31'' ?payload]))"
    using at [where client = "stub_client 0 unparsable_response"]
      p [of 0 unparsable_response] u
    by (simp add: str_int_samples)
  have r3: "update_dashboard_step_run_by_id (stub_client 5 found_response) 31 ?payload
              (0, []) =
     (Inl (Raised ''ConnectionError''),
      (1, [LoggerInfo ''Updating step run ID 31'', ClientPatch ''step-runs/31'' ?payload]))"
    using at [where client = "stub_client 5 found_response"] q
    by (simp add: str_int_samples)
  show ?thesis using r1 r2 r3 by blast
qed

end
